theory Spec2Isabelle
  imports Main
begin

section \<open>Values exchanged with the remote object store\<close>

text \<open>
  The service of \<^verbatim>\<open>server.js\<close> talks to a Backblaze B2 client object. The client's
  calls are modelled by their outcomes: a rejected promise is \<open>Inl\<close> of the error value,
  a fulfilled one is \<open>Inr\<close> of the response. JavaScript strings are modelled as
  \<open>string\<close>; the empty string is the falsy one, and an unset environment variable is
  the empty string as well (the source reads them with \<^verbatim>\<open>||\<close> fallbacks and only tests
  their truthiness).
\<close>

record resp_data =
  dcode :: "string option"

record js_response =
  rdata :: "resp_data option"
  rstatus :: "int option"

record js_error =
  response :: "js_response option"
  ecode :: "string option"
  estatus :: "int option"
  message :: string

record auth_data =
  downloadUrl :: string
  accountId :: string

record auth_response =
  adata :: "auth_data option"

record upload_url_data =
  uploadUrl :: string
  authorizationToken :: string

record bucket_info =
  bkId :: string
  bkName :: string

record b2config =
  enabled :: bool
  bucketId :: string
  bucketName :: string
  publicBaseUrl :: string

text \<open>The environment variables read at lines 62-66 of \<^verbatim>\<open>server.js\<close>.\<close>

record settings =
  b2KeyId :: string
  b2AppKey :: string
  b2BucketIdEnv :: string
  b2BucketNameEnv :: string
  b2PublicBaseOverride :: string

datatype remote_call = Authorize | GetUploadUrl | UploadFile | ListBuckets | GetBucket

datatype log_entry =
    WarnAuthExpired
  | B2InitError js_error
  | B2UploadError js_error
  | PersistFailed
  | UploadError js_error

text \<open>
  A record of the fingerprint registry, as the upload handler writes it (lines 286-292)
  and as the seed of \<^verbatim>\<open>loadReports\<close> has it (no \<^verbatim>\<open>fileUrl\<close>, no \<^verbatim>\<open>mimeType\<close>).
  The registry is the JavaScript object \<^verbatim>\<open>reports\<close>; it is kept as an association list
  in the order in which \<^verbatim>\<open>Object.entries\<close> enumerates string keys (insertion order).
\<close>

record report =
  fileName :: "string option"
  status :: "string option"
  fileUrl :: "string option"
  mimeType :: "string option"
  createdAt :: "string option"

type_synonym registry = "(string \<times> report) list"

text \<open>
  The world outside the process. The \<open>k\<close>-th interaction with the remote store is
  answered by the function of its kind at index \<open>k\<close> (the number of remote calls made
  before it), the \<open>k\<close>-th reading of the clock by \<open>date_now k\<close>, the \<open>k\<close>-th write of the
  store file succeeds iff \<open>writeFile_ok k\<close>. Every run of the deterministic program
  against a real store is reproduced by one such record, so a statement for all
  records is a statement for all behaviours of the store.
\<close>

record world =
  authorize_r :: "nat \<Rightarrow> js_error + auth_response"
  getUploadUrl_r :: "nat \<Rightarrow> js_error + upload_url_data option"
  uploadFile_r :: "nat \<Rightarrow> js_error + unit"
  listBuckets_r :: "nat \<Rightarrow> js_error + bucket_info list"
  getBucket_r :: "nat \<Rightarrow> js_error + bucket_info option"
  date_now :: "nat \<Rightarrow> int"
  toISOString :: "int \<Rightarrow> string"
  writeFile_ok :: "nat \<Rightarrow> bool"
  sha256_hex :: "string \<Rightarrow> string"

text \<open>
  The module-level variables of \<^verbatim>\<open>server.js\<close> (lines 68-74 and 217), the store file,
  the console, and the history of remote calls. \<open>b2InitPromise\<close> holds the value the
  settled initialisation promise resolved to.
\<close>

record server_state =
  b2LastAuthAt :: int
  b2LastAuthResponse :: "auth_response option"
  b2InitPromise :: "b2config option"
  b2Config :: b2config
  reports :: registry
  disk :: "registry option"
  console :: "log_entry list"
  trace :: "remote_call list"
  clock_reads :: nat
  file_writes :: nat

definition B2_AUTH_TTL_MS :: int where
  "B2_AUTH_TTL_MS = 1000 * 60 * 60 * 23"

definition plain_error :: "string \<Rightarrow> js_error" where
  "plain_error m = \<lparr>response = None, ecode = None, estatus = None, message = m\<rparr>"

definition remote_call_done :: "remote_call \<Rightarrow> server_state \<Rightarrow> server_state" where
  "remote_call_done c s = s\<lparr>trace := trace s @ [c]\<rparr>"

section \<open>Remote storage session manager\<close>

text \<open>
  \<^verbatim>\<open>ensureB2Authorized(force)\<close>, lines 76-101, as one request runs it while no other
  handshake is in flight (\<^verbatim>\<open>b2AuthPromise\<close> is null on entry and null again on exit; the
  interleaving of several callers is the subject of the event model further down).
\<close>

definition ensureB2Authorized ::
  "settings \<Rightarrow> world \<Rightarrow> bool \<Rightarrow> server_state \<Rightarrow> (js_error + auth_response) \<times> server_state" where
  "ensureB2Authorized cf w force s =
     (if b2KeyId cf = [] \<or> b2AppKey cf = []
      then (Inl (plain_error ''B2 credentials are not configured''), s)
      else
        let now = date_now w (clock_reads s);
            s0 = s\<lparr>clock_reads := Suc (clock_reads s)\<rparr>
        in case (if \<not> force \<and> b2LastAuthAt s \<noteq> 0 \<and> now - b2LastAuthAt s < B2_AUTH_TTL_MS
                 then b2LastAuthResponse s else None) of
             Some cached \<Rightarrow> (Inr cached, s0)
           | None \<Rightarrow>
               (case authorize_r w (length (trace s0)) of
                  Inl e \<Rightarrow> (Inl e, remote_call_done Authorize s0)
                | Inr auth \<Rightarrow>
                    let s1 = remote_call_done Authorize s0
                    in (Inr auth,
                        s1\<lparr>b2LastAuthAt := date_now w (clock_reads s1),
                           b2LastAuthResponse := Some auth,
                           clock_reads := Suc (clock_reads s1)\<rparr>)))"

text \<open>\<^verbatim>\<open>isExpiredAuthError(err)\<close>, lines 103-108.\<close>

definition err_code_of :: "js_error \<Rightarrow> string option" where
  "err_code_of err =
     (case response err of
        None \<Rightarrow> ecode err
      | Some resp \<Rightarrow>
          (case rdata resp of
             None \<Rightarrow> ecode err
           | Some d \<Rightarrow>
               (case dcode d of
                  None \<Rightarrow> ecode err
                | Some c \<Rightarrow> if c \<noteq> [] then Some c else ecode err)))"

definition err_status_of :: "js_error \<Rightarrow> int option" where
  "err_status_of err =
     (case response err of
        None \<Rightarrow> estatus err
      | Some resp \<Rightarrow>
          (case rstatus resp of
             None \<Rightarrow> estatus err
           | Some st \<Rightarrow> if st \<noteq> 0 then Some st else estatus err))"

definition isExpiredAuthError :: "js_error \<Rightarrow> bool" where
  "isExpiredAuthError err =
     (err_code_of err = Some ''expired_auth_token'' \<or>
      err_code_of err = Some ''bad_auth_token'' \<or>
      err_status_of err = Some 401)"

text \<open>
  The closure \<^verbatim>\<open>attempt(forceAuth)\<close> of \<^verbatim>\<open>uploadFileToB2\<close>, lines 111-123. Reading
  \<^verbatim>\<open>uploadUrlResp.data.uploadUrl\<close> of a response without \<^verbatim>\<open>data\<close> throws a TypeError.
  The arguments handed to the store (bucket id, upload URL and token, target name,
  bytes, MIME type) take no part in the control flow, and the store's answers come from
  the world, so they are not carried along.
\<close>

definition attempt ::
  "settings \<Rightarrow> world \<Rightarrow> bool \<Rightarrow> server_state \<Rightarrow> (js_error + unit) \<times> server_state" where
  "attempt cf w forceAuth s =
     (case ensureB2Authorized cf w forceAuth s of
        (Inl e, s1) \<Rightarrow> (Inl e, s1)
      | (Inr auth, s1) \<Rightarrow>
          (case getUploadUrl_r w (length (trace s1)) of
             Inl e \<Rightarrow> (Inl e, remote_call_done GetUploadUrl s1)
           | Inr None \<Rightarrow>
               (Inl (plain_error ''TypeError''), remote_call_done GetUploadUrl s1)
           | Inr (Some d) \<Rightarrow>
               let s2 = remote_call_done GetUploadUrl s1
               in (case uploadFile_r w (length (trace s2)) of
                     Inl e \<Rightarrow> (Inl e, remote_call_done UploadFile s2)
                   | Inr u \<Rightarrow> (Inr u, remote_call_done UploadFile s2))))"

text \<open>\<^verbatim>\<open>uploadFileToB2\<close>, lines 110-134: the try/catch around the first attempt.\<close>

definition warn :: "log_entry \<Rightarrow> server_state \<Rightarrow> server_state" where
  "warn l s = s\<lparr>console := console s @ [l]\<rparr>"

definition uploadFileToB2 ::
  "settings \<Rightarrow> world \<Rightarrow> server_state \<Rightarrow> (js_error + unit) \<times> server_state" where
  "uploadFileToB2 cf w s =
     (case attempt cf w False s of
        (Inr u, s1) \<Rightarrow> (Inr u, s1)
      | (Inl err, s1) \<Rightarrow>
          if isExpiredAuthError err
          then attempt cf w True (warn WarnAuthExpired s1)
          else (Inl err, s1))"

text \<open>
  Bucket discovery inside \<^verbatim>\<open>ensureB2Ready\<close>, lines 149-179. A bucket descriptor
  of the store is taken to carry both of its string fields. Evaluating
  \<^verbatim>\<open>auth.data.accountId\<close> without \<^verbatim>\<open>data\<close> throws inside the first try block, before
  \<^verbatim>\<open>listBuckets\<close> is called, and is swallowed there like a failed listing.
\<close>

definition find_bucket :: "string \<Rightarrow> string \<Rightarrow> bucket_info list \<Rightarrow> bucket_info option" where
  "find_bucket bid bname buckets =
     (if bid \<noteq> [] then find (\<lambda>b. bkId b = bid) buckets
      else if bname \<noteq> [] then find (\<lambda>b. bkName b = bname) buckets
      else None)"

definition list_lookup ::
  "world \<Rightarrow> auth_response \<Rightarrow> string \<Rightarrow> string \<Rightarrow> server_state \<Rightarrow>
     bucket_info option \<times> server_state" where
  "list_lookup w auth bid bname s =
     (case adata auth of
        None \<Rightarrow> (None, s)
      | Some d \<Rightarrow>
          (case listBuckets_r w (length (trace s)) of
             Inl listErr \<Rightarrow> (None, remote_call_done ListBuckets s)
           | Inr buckets \<Rightarrow> (find_bucket bid bname buckets, remote_call_done ListBuckets s)))"

definition get_lookup ::
  "world \<Rightarrow> string \<Rightarrow> string \<Rightarrow> server_state \<Rightarrow> bucket_info option \<times> server_state" where
  "get_lookup w bid bname s =
     (if bid \<noteq> [] \<or> bname \<noteq> []
      then (case getBucket_r w (length (trace s)) of
              Inl gbErr \<Rightarrow> (None, remote_call_done GetBucket s)
            | Inr gb \<Rightarrow> (gb, remote_call_done GetBucket s))
      else (None, s))"

definition discover_bucket ::
  "world \<Rightarrow> auth_response \<Rightarrow> string \<Rightarrow> string \<Rightarrow> server_state \<Rightarrow>
     (js_error + bucket_info) \<times> server_state" where
  "discover_bucket w auth bid bname s =
     (case list_lookup w auth bid bname s of
        (Some found, s1) \<Rightarrow> (Inr found, s1)
      | (None, s1) \<Rightarrow>
          (case get_lookup w bid bname s1 of
             (Some found, s2) \<Rightarrow> (Inr found, s2)
           | (None, s2) \<Rightarrow> (Inl (plain_error ''B2 bucket not found''), s2)))"

text \<open>The body of the initialisation promise, lines 138-183.\<close>

definition disable :: "server_state \<Rightarrow> server_state" where
  "disable s = s\<lparr>b2Config := (b2Config s)\<lparr>enabled := False\<rparr>\<rparr>"

definition init_body ::
  "settings \<Rightarrow> world \<Rightarrow> server_state \<Rightarrow> (js_error + b2config) \<times> server_state" where
  "init_body cf w s =
     (if b2KeyId cf = [] \<or> b2AppKey cf = [] \<or> (b2BucketIdEnv cf = [] \<and> b2BucketNameEnv cf = [])
      then (Inr (b2Config (disable s)), disable s)
      else
        (case ensureB2Authorized cf w True s of
           (Inl e, s1) \<Rightarrow> (Inl e, s1)
         | (Inr auth, s1) \<Rightarrow>
             let dl = (case adata auth of None \<Rightarrow> [] | Some d \<Rightarrow> downloadUrl d);
                 base = (if b2PublicBaseOverride cf \<noteq> [] then b2PublicBaseOverride cf else dl)
             in if b2BucketIdEnv cf = [] \<or> b2BucketNameEnv cf = []
                then (case discover_bucket w auth (b2BucketIdEnv cf) (b2BucketNameEnv cf) s1 of
                        (Inl e, s2) \<Rightarrow> (Inl e, s2)
                      | (Inr found, s2) \<Rightarrow>
                          let c = \<lparr>enabled = True, bucketId = bkId found,
                                   bucketName = bkName found, publicBaseUrl = base\<rparr>
                          in (Inr c, s2\<lparr>b2Config := c\<rparr>))
                else
                  let c = \<lparr>enabled = True, bucketId = b2BucketIdEnv cf,
                           bucketName = b2BucketNameEnv cf, publicBaseUrl = base\<rparr>
                  in (Inr c, s1\<lparr>b2Config := c\<rparr>)))"

text \<open>
  \<^verbatim>\<open>ensureB2Ready\<close>, lines 136-195: the memoised promise, and the \<^verbatim>\<open>.catch\<close> handler
  that logs the cause, disables the store and fulfils the promise all the same.
\<close>

definition init_catch :: "js_error \<Rightarrow> server_state \<Rightarrow> (js_error + b2config) \<times> server_state" where
  "init_catch err s =
     (let s1 = disable (warn (B2InitError err) s) in (Inr (b2Config s1), s1))"

definition ensureB2Ready ::
  "settings \<Rightarrow> world \<Rightarrow> server_state \<Rightarrow> (js_error + b2config) \<times> server_state" where
  "ensureB2Ready cf w s =
     (case b2InitPromise s of
        Some c \<Rightarrow> (Inr c, s)
      | None \<Rightarrow>
          (case (case init_body cf w s of
                   (Inl err, s1) \<Rightarrow> init_catch err s1
                 | (Inr c, s1) \<Rightarrow> (Inr c, s1)) of
             (Inl err, s2) \<Rightarrow> (Inl err, s2)
           | (Inr c, s2) \<Rightarrow> (Inr c, s2\<lparr>b2InitPromise := Some c\<rparr>)))"

section \<open>Fingerprint registry\<close>

text \<open>
  \<^verbatim>\<open>loadReports\<close>, lines 198-207. The store file is described by what the two calls
  inside the try block make of it: \<^verbatim>\<open>readFileSync\<close> throws when the file is missing or
  unreadable; \<^verbatim>\<open>JSON.parse\<close> throws on text that is not JSON, and otherwise yields
  \<^verbatim>\<open>null\<close>, a primitive (number, string, boolean) or an object. The first argument is
  the value of \<^verbatim>\<open>new Date().toISOString()\<close> at the time of the call.
\<close>

datatype parsed = NotJson | JsonNull | JsonPrimitive | JsonObject registry

datatype store_file = FileMissing | FileUnreadable | FileContent parsed

text \<open>
  The two status literals of the source (lines 205 and 288) are not ASCII; they are
  given by the bytes the source file holds between the quotes.
\<close>

definition seed_status :: string where
  "seed_status = ''????'' @ [CHR 0xC3, CHR 0xA2, CHR ''?'', CHR 0xC3, CHR 0xA2, CHR ''?'']"

definition original_status :: string where
  "original_status =
     [CHR 0xC3, CHR 0x98, CHR 0xC2, CHR 0xA3, CHR 0xC3, CHR 0x98, CHR 0xC2, CHR 0xB5,
      CHR 0xC3, CHR 0x99, CHR 0xE2, CHR 0x80, CHR 0x9E, CHR 0xC3, CHR 0x99, CHR 0xC5, CHR 0xA0]"

definition seed_reports :: "string \<Rightarrow> registry" where
  "seed_reports now_iso =
     [(''123abc'', \<lparr>fileName = Some ''report1.pdf'', status = Some seed_status,
                    fileUrl = None, mimeType = None, createdAt = Some now_iso\<rparr>)]"

definition loadReports :: "string \<Rightarrow> store_file \<Rightarrow> registry" where
  "loadReports now_iso f =
     (case f of
        FileMissing \<Rightarrow> seed_reports now_iso
      | FileUnreadable \<Rightarrow> seed_reports now_iso
      | FileContent NotJson \<Rightarrow> seed_reports now_iso
      | FileContent JsonNull \<Rightarrow> seed_reports now_iso
      | FileContent JsonPrimitive \<Rightarrow> seed_reports now_iso
      | FileContent (JsonObject obj) \<Rightarrow> obj)"

text \<open>\<^verbatim>\<open>saveReports\<close>, lines 209-215: a failed write is logged and swallowed.\<close>

definition saveReports :: "world \<Rightarrow> registry \<Rightarrow> server_state \<Rightarrow> server_state" where
  "saveReports w data s =
     (if writeFile_ok w (file_writes s)
      then s\<lparr>disk := Some data, file_writes := Suc (file_writes s)\<rparr>
      else (s\<lparr>console := console s @ [PersistFailed]\<rparr>)\<lparr>file_writes := Suc (file_writes s)\<rparr>)"

text \<open>
  Property read and write on the object \<^verbatim>\<open>reports\<close>: \<^verbatim>\<open>reports[hash]\<close> and
  \<^verbatim>\<open>reports[hash] = record\<close>. An assignment to an existing key keeps the key's place
  in the enumeration order, a new key goes last.
\<close>

definition get_report :: "registry \<Rightarrow> string \<Rightarrow> report option" where
  "get_report reg h = map_of reg h"

fun put_report :: "registry \<Rightarrow> string \<Rightarrow> report \<Rightarrow> registry" where
  "put_report [] h r = [(h, r)]"
| "put_report ((k, v) # reg) h r =
     (if k = h then (h, r) # reg else (k, v) # put_report reg h r)"

text \<open>
  The state of the process when it starts listening (lines 68-74, 217-218): the
  registry is loaded and written back at once. The clock is read once when the seed is
  built, and not at all when the file is used. \<open>disk\<close> is the registry the store
  file holds, if it holds one.
\<close>

definition boot :: "world \<Rightarrow> store_file \<Rightarrow> server_state" where
  "boot w f =
     saveReports w (loadReports (toISOString w (date_now w 0)) f)
       \<lparr>b2LastAuthAt = 0, b2LastAuthResponse = None, b2InitPromise = None,
        b2Config = \<lparr>enabled = False, bucketId = [], bucketName = [], publicBaseUrl = []\<rparr>,
        reports = loadReports (toISOString w (date_now w 0)) f,
        disk = (case f of FileContent (JsonObject obj) \<Rightarrow> Some obj | _ \<Rightarrow> None),
        console = [], trace = [],
        clock_reads = (case f of FileContent (JsonObject obj) \<Rightarrow> 0 | _ \<Rightarrow> 1),
        file_writes = 0\<rparr>"

section \<open>Upload orchestrator\<close>

text \<open>
  \<^verbatim>\<open>encodeURIComponent\<close> on a well-formed string, seen as the bytes of its UTF-8
  encoding: the unreserved characters stay, every other byte becomes \<^verbatim>\<open>%XX\<close> in
  upper-case hexadecimal. (Strings delivered by the multipart parser are well-formed,
  so the URIError of a lone surrogate does not arise.)
\<close>

definition is_unreserved :: "char \<Rightarrow> bool" where
  "is_unreserved c =
     (c \<in> set ''ABCDEFGHIJKLMNOPQRSTUVWXYZabcdefghijklmnopqrstuvwxyz0123456789-_.!~*()''
      \<or> c = CHR 0x27)"

definition hex_digit :: "nat \<Rightarrow> char" where
  "hex_digit n = ''0123456789ABCDEF'' ! (n mod 16)"

definition percent_encode :: "char \<Rightarrow> string" where
  "percent_encode c =
     [CHR ''%'', hex_digit ((of_char c :: nat) div 16), hex_digit ((of_char c :: nat) mod 16)]"

definition encodeURIComponent :: "string \<Rightarrow> string" where
  "encodeURIComponent s =
     concat (map (\<lambda>c. if is_unreserved c then [c] else percent_encode c) s)"

text \<open>\<^verbatim>\<open>String.prototype.split('/')\<close> and \<^verbatim>\<open>Array.prototype.join('/')\<close>.\<close>

fun split_slash :: "string \<Rightarrow> string list" where
  "split_slash [] = [[]]"
| "split_slash (c # cs) =
     (if c = CHR ''/'' then [] # split_slash cs
      else (case split_slash cs of
              [] \<Rightarrow> [[c]]
            | seg # segs \<Rightarrow> (c # seg) # segs))"

fun join_slash :: "string list \<Rightarrow> string" where
  "join_slash [] = []"
| "join_slash [seg] = seg"
| "join_slash (seg # segs) = seg @ CHR ''/'' # join_slash segs"

text \<open>\<^verbatim>\<open>.replace(/\/$/, '')\<close>: one slash at the very end of the string is dropped.\<close>

definition strip_trailing_slash :: "string \<Rightarrow> string" where
  "strip_trailing_slash s = (if s \<noteq> [] \<and> last s = CHR ''/'' then butlast s else s)"

text \<open>The public URL of lines 277-283.\<close>

definition safe_path :: "string \<Rightarrow> string" where
  "safe_path targetName = join_slash (map encodeURIComponent (split_slash targetName))"

definition public_file_url :: "b2config \<Rightarrow> string \<Rightarrow> string" where
  "public_file_url cfg targetName =
     strip_trailing_slash (publicBaseUrl cfg) @ ''/file/'' @
     encodeURIComponent (bucketName cfg) @ ''/'' @ safe_path targetName"

text \<open>
  The request as the multipart parser hands it to the handler: \<^verbatim>\<open>req.file\<close> (absent when
  the form has no part named \<^verbatim>\<open>file\<close>) and the two optional text fields of
  \<^verbatim>\<open>req.body\<close>.
\<close>

record upload_file =
  buffer :: string
  originalname :: string
  mimetype :: string
  fsize :: nat

record upload_request =
  req_file :: "upload_file option"
  body_hash :: "string option"
  body_targetName :: "string option"

record upload_ok =
  ok_hash :: string
  ok_fileName :: string
  ok_fileUrl :: string
  ok_mimeType :: string
  ok_size :: "nat option"

datatype upload_response = Success upload_ok | Failure nat

text \<open>
  The fields the handler derives from the request, lines 265-270. \<^verbatim>\<open>a || b\<close> on
  strings is \<open>b\<close> when \<open>a\<close> is undefined or empty.
\<close>

definition providedHash :: "upload_request \<Rightarrow> string option" where
  "providedHash req =
     (case body_hash req of None \<Rightarrow> None | Some h \<Rightarrow> if h \<noteq> [] then Some h else None)"

definition record_key :: "world \<Rightarrow> upload_request \<Rightarrow> upload_file \<Rightarrow> string" where
  "record_key w req f =
     (case providedHash req of
        None \<Rightarrow> sha256_hex w (buffer f)
      | Some h \<Rightarrow> if h \<noteq> [] then h else sha256_hex w (buffer f))"

definition originalName :: "upload_file \<Rightarrow> string" where
  "originalName f = (if originalname f \<noteq> [] then originalname f else ''file'')"

definition storage_name :: "upload_request \<Rightarrow> upload_file \<Rightarrow> string" where
  "storage_name req f =
     (case body_targetName req of
        None \<Rightarrow> originalName f
      | Some t \<Rightarrow> if t \<noteq> [] then t else originalName f)"

definition mime_of :: "upload_file \<Rightarrow> string" where
  "mime_of f = (if mimetype f \<noteq> [] then mimetype f else ''application/octet-stream'')"

text \<open>
  The part of the handler inside the inner try block, lines 272-304: upload, URL,
  registry write, response; a failed upload is logged and answered with 502.
\<close>

definition store_and_register ::
  "settings \<Rightarrow> world \<Rightarrow> b2config \<Rightarrow> upload_request \<Rightarrow> upload_file \<Rightarrow> server_state \<Rightarrow>
     upload_response \<times> server_state" where
  "store_and_register cf w cfg req f s =
     (case uploadFileToB2 cf w s of
        (Inl e, s1) \<Rightarrow> (Failure 502, warn (B2UploadError e) s1)
      | (Inr u, s1) \<Rightarrow>
          let url = public_file_url cfg (storage_name req f);
              rec = \<lparr>fileName = Some (storage_name req f), status = Some original_status,
                     fileUrl = Some url, mimeType = Some (mime_of f),
                     createdAt = Some (toISOString w (date_now w (clock_reads s1)))\<rparr>;
              s2 = s1\<lparr>reports := put_report (reports s1) (record_key w req f) rec,
                      clock_reads := Suc (clock_reads s1)\<rparr>
          in (Success \<lparr>ok_hash = record_key w req f, ok_fileName = storage_name req f,
                        ok_fileUrl = url, ok_mimeType = mime_of f,
                        ok_size = (if fsize f \<noteq> 0 then Some (fsize f) else None)\<rparr>,
              saveReports w (reports s2) s2))"

text \<open>The handler of \<^verbatim>\<open>POST /upload\<close>, lines 254-309.\<close>

definition post_upload ::
  "settings \<Rightarrow> world \<Rightarrow> upload_request \<Rightarrow> server_state \<Rightarrow> upload_response \<times> server_state" where
  "post_upload cf w req s =
     (case req_file req of
        None \<Rightarrow> (Failure 400, s)
      | Some f \<Rightarrow>
          (case ensureB2Ready cf w s of
             (Inl error, s1) \<Rightarrow> (Failure 500, warn (UploadError error) s1)
           | (Inr cfg, s1) \<Rightarrow>
               if \<not> enabled cfg then (Failure 500, s1)
               else store_and_register cf w cfg req f s1))"

section \<open>Verification and lookup\<close>

text \<open>
  The handler of \<^verbatim>\<open>GET /file\<close>, lines 313-324, for a \<^verbatim>\<open>hash\<close> query parameter
  that is absent or a string.
\<close>

datatype file_response = Plain nat | Redirect nat string

definition get_file :: "registry \<Rightarrow> string option \<Rightarrow> file_response" where
  "get_file reg hash =
     (case hash of
        None \<Rightarrow> Plain 400
      | Some h \<Rightarrow>
          if h = [] then Plain 400
          else (case get_report reg h of
                  None \<Rightarrow> Plain 404
                | Some r \<Rightarrow>
                    (case fileUrl r of
                       None \<Rightarrow> Plain 404
                     | Some u \<Rightarrow> if u = [] then Plain 404 else Redirect 302 u)))"

text \<open>
  The handler of \<^verbatim>\<open>GET /api/reports\<close>, lines 327-342. \<open>getTime\<close> stands for
  \<^verbatim>\<open>new Date(s).getTime()\<close>: the milliseconds since the epoch, or \<open>None\<close> for the
  NaN of a string that is not a date. The difference of two times is NaN as soon as
  one of them is.
\<close>

record report_row =
  row_hash :: string
  row_fileName :: string
  row_status :: string
  row_fileUrl :: string
  row_mimeType :: string
  row_createdAt :: "string option"

definition or_empty :: "string option \<Rightarrow> string" where
  "or_empty v = (case v of None \<Rightarrow> [] | Some x \<Rightarrow> x)"

definition to_row :: "string \<times> report \<Rightarrow> report_row" where
  "to_row e =
     \<lparr>row_hash = fst e, row_fileName = or_empty (fileName (snd e)),
      row_status = or_empty (status (snd e)), row_fileUrl = or_empty (fileUrl (snd e)),
      row_mimeType = or_empty (mimeType (snd e)),
      row_createdAt = (case createdAt (snd e) of
                         None \<Rightarrow> None
                       | Some c \<Rightarrow> if c \<noteq> [] then Some c else None)\<rparr>"

definition time_of :: "(string \<Rightarrow> int option) \<Rightarrow> report_row \<Rightarrow> int option" where
  "time_of getTime a =
     (case row_createdAt a of
        None \<Rightarrow> Some 0
      | Some c \<Rightarrow> if c \<noteq> [] then getTime c else Some 0)"

definition compare_rows ::
  "(string \<Rightarrow> int option) \<Rightarrow> report_row \<Rightarrow> report_row \<Rightarrow> int option" where
  "compare_rows getTime a b =
     (case time_of getTime b of
        None \<Rightarrow> None
      | Some bTime \<Rightarrow>
          (case time_of getTime a of
             None \<Rightarrow> None
           | Some aTime \<Rightarrow> Some (bTime - aTime)))"

text \<open>
  \<^verbatim>\<open>Array.prototype.sort(comparefn)\<close>: \<open>a\<close> goes after \<open>b\<close> when the comparator's
  value for the pair is positive; a NaN value is taken for \<open>+0\<close> (the language's
  SortCompare), and elements that compare as equal keep their order (the sort is
  stable). It is modelled by the stable insertion sort.
\<close>

definition goes_after ::
  "(string \<Rightarrow> int option) \<Rightarrow> report_row \<Rightarrow> report_row \<Rightarrow> bool" where
  "goes_after getTime a b =
     (case compare_rows getTime a b of None \<Rightarrow> False | Some v \<Rightarrow> 0 < v)"

fun insert_row ::
  "(string \<Rightarrow> int option) \<Rightarrow> report_row \<Rightarrow> report_row list \<Rightarrow> report_row list" where
  "insert_row getTime a [] = [a]"
| "insert_row getTime a (b # bs) =
     (if goes_after getTime a b then b # insert_row getTime a bs else a # b # bs)"

definition sort_rows ::
  "(string \<Rightarrow> int option) \<Rightarrow> report_row list \<Rightarrow> report_row list" where
  "sort_rows getTime rows = foldr (insert_row getTime) rows []"

definition api_reports :: "(string \<Rightarrow> int option) \<Rightarrow> registry \<Rightarrow> report_row list" where
  "api_reports getTime reg = sort_rows getTime (map to_row reg)"

section \<open>Interleaved callers of the authorize guard\<close>

text \<open>
  JavaScript runs each piece of code between two \<^verbatim>\<open>await\<close>s to completion, so several
  requests interleave only at the \<^verbatim>\<open>await\<close>s. The events below are these pieces for
  \<^verbatim>\<open>ensureB2Authorized\<close> (lines 76-101) and for the start of \<^verbatim>\<open>ensureB2Ready\<close>
  (lines 137-144):
  \<^item> \<open>CallAuthorized force now\<close>: some request calls \<^verbatim>\<open>ensureB2Authorized(force)\<close>
    when the clock reads \<open>now\<close>; the code runs to its first \<^verbatim>\<open>await\<close> (lines 77-97).
    A caller that installs the promise has called \<^verbatim>\<open>b2.authorize()\<close> by then.
  \<^item> \<open>HandshakeSettles result now\<close>: the promise of \<^verbatim>\<open>b2.authorize()\<close> settles and the
    async function of lines 90-95 finishes, settling \<^verbatim>\<open>b2AuthPromise\<close>.
  \<^item> \<open>CreatorResumes\<close>: the caller that installed the promise resumes from its
    \<^verbatim>\<open>await\<close> and runs the \<^verbatim>\<open>finally\<close> block (line 99).
  \<^item> \<open>CallReady now\<close>: some request calls \<^verbatim>\<open>ensureB2Ready()\<close>, which runs to its
    first \<^verbatim>\<open>await\<close>, the call \<^verbatim>\<open>ensureB2Authorized(true)\<close> of line 144 included.
  A caller gets a rejected promise, the cached response, or is joined to the handshake
  of a given number (counted from 1); \<open>handed\<close> lists what the calls so far got,
  \<open>settled\<close> the result of every settled handshake.
\<close>

datatype slot = Null | Pending | Done

datatype handle = Rejected js_error | Fulfilled auth_response | Joined nat

datatype event =
    CallAuthorized bool int
  | CallReady int
  | HandshakeSettles "js_error + auth_response" int
  | CreatorResumes

record loop_state =
  lastAuthAt :: int
  lastAuthResponse :: "auth_response option"
  authPromise :: slot
  initStarted :: bool
  handshakes :: nat
  outstanding :: nat
  handed :: "handle list"
  settled :: "(nat \<times> (js_error + auth_response)) list"

definition loop_init :: loop_state where
  "loop_init =
     \<lparr>lastAuthAt = 0, lastAuthResponse = None, authPromise = Null, initStarted = False,
      handshakes = 0, outstanding = 0, handed = [], settled = []\<rparr>"

definition hand :: "handle \<Rightarrow> loop_state \<Rightarrow> loop_state" where
  "hand h s = s\<lparr>handed := handed s @ [h]\<rparr>"

definition call_authorized :: "settings \<Rightarrow> bool \<Rightarrow> int \<Rightarrow> loop_state \<Rightarrow> loop_state" where
  "call_authorized cf force now s =
     (if b2KeyId cf = [] \<or> b2AppKey cf = []
      then hand (Rejected (plain_error ''B2 credentials are not configured'')) s
      else
        (case (if \<not> force \<and> lastAuthAt s \<noteq> 0 \<and> now - lastAuthAt s < B2_AUTH_TTL_MS
               then lastAuthResponse s else None) of
           Some cached \<Rightarrow> hand (Fulfilled cached) s
         | None \<Rightarrow>
             if authPromise s \<noteq> Null then hand (Joined (handshakes s)) s
             else hand (Joined (Suc (handshakes s)))
                    (s\<lparr>authPromise := Pending, handshakes := Suc (handshakes s),
                       outstanding := Suc (outstanding s)\<rparr>)))"

definition call_ready :: "settings \<Rightarrow> int \<Rightarrow> loop_state \<Rightarrow> loop_state" where
  "call_ready cf now s =
     (if initStarted s then s
      else if b2KeyId cf = [] \<or> b2AppKey cf = [] \<or>
              (b2BucketIdEnv cf = [] \<and> b2BucketNameEnv cf = [])
      then s\<lparr>initStarted := True\<rparr>
      else call_authorized cf True now (s\<lparr>initStarted := True\<rparr>))"

definition handshake_settles ::
  "js_error + auth_response \<Rightarrow> int \<Rightarrow> loop_state \<Rightarrow> loop_state option" where
  "handshake_settles res now s =
     (if authPromise s \<noteq> Pending then None
      else
        let s1 = s\<lparr>authPromise := Done, outstanding := outstanding s - 1,
                   settled := settled s @ [(handshakes s, res)]\<rparr>
        in (case res of
              Inl e \<Rightarrow> Some s1
            | Inr auth \<Rightarrow> Some (s1\<lparr>lastAuthAt := now, lastAuthResponse := Some auth\<rparr>)))"

definition creator_resumes :: "loop_state \<Rightarrow> loop_state option" where
  "creator_resumes s = (if authPromise s = Done then Some (s\<lparr>authPromise := Null\<rparr>) else None)"

fun step :: "settings \<Rightarrow> event \<Rightarrow> loop_state \<Rightarrow> loop_state option" where
  "step cf (CallAuthorized force now) s = Some (call_authorized cf force now s)"
| "step cf (CallReady now) s = Some (call_ready cf now s)"
| "step cf (HandshakeSettles res now) s = handshake_settles res now s"
| "step cf CreatorResumes s = creator_resumes s"

fun run :: "settings \<Rightarrow> event list \<Rightarrow> loop_state \<Rightarrow> loop_state option" where
  "run cf [] s = Some s"
| "run cf (e # es) s = (case step cf e s of None \<Rightarrow> None | Some s' \<Rightarrow> run cf es s')"

fun is_ready_call :: "event \<Rightarrow> bool" where
  "is_ready_call (CallReady now) = True"
| "is_ready_call e = False"

fun is_direct_call :: "event \<Rightarrow> bool" where
  "is_direct_call (CallAuthorized force now) = True"
| "is_direct_call e = False"

section \<open>Concrete stores, settings and requests\<close>

text \<open>Inputs at which the theorems below are exercised.\<close>

definition demo_settings :: settings where
  "demo_settings =
     \<lparr>b2KeyId = ''key-id'', b2AppKey = ''app-key'', b2BucketIdEnv = ''bucket-1'',
      b2BucketNameEnv = ''reports'', b2PublicBaseOverride = []\<rparr>"

definition demo_auth :: auth_response where
  "demo_auth =
     \<lparr>adata = Some \<lparr>downloadUrl = ''https://f000.example.com/'', accountId = ''acct''\<rparr>\<rparr>"

definition expired_error :: js_error where
  "expired_error =
     \<lparr>response = Some \<lparr>rdata = Some \<lparr>dcode = Some ''expired_auth_token''\<rparr>,
                        rstatus = Some 401\<rparr>,
      ecode = None, estatus = None, message = ''Request failed with status code 401''\<rparr>"

definition unauthorized_error :: js_error where
  "unauthorized_error =
     \<lparr>response = Some \<lparr>rdata = Some \<lparr>dcode = Some ''unauthorized''\<rparr>, rstatus = Some 401\<rparr>,
      ecode = None, estatus = None, message = ''Request failed with status code 401''\<rparr>"

text \<open>
  SHA-256 on the two buffers uploaded below (the empty buffer and \<^verbatim>\<open>PDF-BYTES\<close>); no
  other buffer is hashed in this theory.
\<close>

definition demo_sha256 :: "string \<Rightarrow> string" where
  "demo_sha256 b =
     (if b = ''PDF-BYTES''
      then ''ca7554f0db6ddfa48b2149feffc0dcbf5ed01b110297d7cd8d919185fa842098''
      else ''e3b0c44298fc1c149afbf4c8996fb92427ae41e4649b934ca495991b7852b855'')"

definition good_world :: world where
  "good_world =
     \<lparr>authorize_r = (\<lambda>k. Inr demo_auth),
      getUploadUrl_r = (\<lambda>k. Inr (Some \<lparr>uploadUrl = ''https://pod.example.com/u'',
                                        authorizationToken = ''t''\<rparr>)),
      uploadFile_r = (\<lambda>k. Inr ()),
      listBuckets_r = (\<lambda>k. Inr []),
      getBucket_r = (\<lambda>k. Inr None),
      date_now = (\<lambda>k. 1700000000000 + int k),
      toISOString = (\<lambda>t. ''2023-11-14T22:13:20.000Z''),
      writeFile_ok = (\<lambda>k. True),
      sha256_hex = demo_sha256\<rparr>"

text \<open>A store whose first upload (the third remote call) reports an expired token.\<close>

definition expiring_world :: world where
  "expiring_world =
     good_world\<lparr>uploadFile_r := (\<lambda>k. if k = 2 then Inl expired_error else Inr ())\<rparr>"

text \<open>A store that answers every authorize call with HTTP 401.\<close>

definition locked_out_world :: world where
  "locked_out_world = good_world\<lparr>authorize_r := (\<lambda>k. Inl unauthorized_error)\<rparr>"

text \<open>
  The configuration under which \<^verbatim>\<open>ensureB2Ready\<close> goes on to authorize: the negation
  of the guard of line 140.
\<close>

definition configured :: "settings \<Rightarrow> bool" where
  "configured cf =
     (b2KeyId cf \<noteq> [] \<and> b2AppKey cf \<noteq> [] \<and> (b2BucketIdEnv cf \<noteq> [] \<or> b2BucketNameEnv cf \<noteq> []))"

text \<open>Three upload requests: an empty file, no file at all, and a small PDF.\<close>

definition empty_upload :: upload_request where
  "empty_upload =
     \<lparr>req_file = Some \<lparr>buffer = [], originalname = ''empty.pdf'',
                          mimetype = ''application/pdf'', fsize = 0\<rparr>,
      body_hash = None, body_targetName = None\<rparr>"

definition no_file_upload :: upload_request where
  "no_file_upload = \<lparr>req_file = None, body_hash = Some ''abc'', body_targetName = None\<rparr>"

definition pdf_upload :: upload_request where
  "pdf_upload =
     \<lparr>req_file = Some \<lparr>buffer = ''PDF-BYTES'', originalname = ''report.pdf'',
                          mimetype = ''application/pdf'', fsize = 9\<rparr>,
      body_hash = None, body_targetName = Some ''a/b c.pdf''\<rparr>"

text \<open>
  A registry with one record whose \<^verbatim>\<open>createdAt\<close> is not a date, listed before a
  dated one, and the \<^verbatim>\<open>getTime\<close> of these two strings.
\<close>

definition mixed_registry :: registry where
  "mixed_registry =
     [(''bad'', \<lparr>fileName = Some ''x.pdf'', status = Some original_status, fileUrl = None,
                 mimeType = None, createdAt = Some ''not a date''\<rparr>),
      (''good'', \<lparr>fileName = Some ''y.pdf'', status = Some original_status, fileUrl = None,
                  mimeType = None, createdAt = Some ''2024-01-01T00:00:00.000Z''\<rparr>)]"

definition demo_getTime :: "string \<Rightarrow> int option" where
  "demo_getTime s = (if s = ''2024-01-01T00:00:00.000Z'' then Some 1704067200000 else None)"

text \<open>
  Two schedules of the event model: three requests for \<^verbatim>\<open>ensureB2Ready\<close> before any
  session exists; and a forced re-authorization that is still in flight when a further,
  unforced call arrives while the cached session is within its lifetime.
\<close>

definition three_ready_calls :: "event list" where
  "three_ready_calls = [CallReady 1000, CallReady 1001, CallReady 1002]"

definition reauthorize_with_fresh_cache :: "event list" where
  "reauthorize_with_fresh_cache =
     [CallAuthorized True 1000, HandshakeSettles (Inr demo_auth) 2000, CreatorResumes,
      CallAuthorized True 3000, CallAuthorized False 4000]"

text \<open>
  What holds of the guard in every reachable state: the number of handshakes under way
  is 1 while the promise is pending and 0 otherwise; a promise is only ever installed
  with credentials present; the settled handshakes are numbered apart, each at most
  the number of handshakes completed. The second predicate describes the states reached
  by calls of \<^verbatim>\<open>ensureB2Ready\<close> alone.
\<close>

definition guard_inv :: "settings \<Rightarrow> loop_state \<Rightarrow> bool" where
  "guard_inv cf s =
     (outstanding s = (if authPromise s = Pending then 1 else 0) \<and>
      (authPromise s \<noteq> Null \<longrightarrow> b2KeyId cf \<noteq> [] \<and> b2AppKey cf \<noteq> []) \<and>
      (\<forall>k r. (k, r) \<in> set (settled s) \<longrightarrow> k \<le> handshakes s - outstanding s) \<and>
      distinct (map fst (settled s)) \<and>
      outstanding s \<le> handshakes s)"

definition ready_inv :: "loop_state \<Rightarrow> bool" where
  "ready_inv s =
     (if initStarted s then handshakes s = 1 else handshakes s = 0 \<and> authPromise s = Null)"

section \<open>The retry policy of the upload\<close>

lemma ensureB2Authorized_effect:
  "ensureB2Authorized cf w force s = (r, s') \<Longrightarrow>
     (trace s' = trace s \<or> trace s' = trace s @ [Authorize]) \<and>
     console s' = console s \<and> reports s' = reports s \<and> disk s' = disk s \<and>
     file_writes s' = file_writes s \<and> b2Config s' = b2Config s \<and>
     b2InitPromise s' = b2InitPromise s"
  by (auto simp: ensureB2Authorized_def remote_call_done_def Let_def
      split: if_splits option.splits sum.splits)

lemma ensureB2Authorized_forced:
  "ensureB2Authorized cf w True s = (r, s') \<Longrightarrow> b2KeyId cf \<noteq> [] \<Longrightarrow> b2AppKey cf \<noteq> [] \<Longrightarrow>
     trace s' = trace s @ [Authorize]"
  by (auto simp: ensureB2Authorized_def remote_call_done_def Let_def
      split: if_splits option.splits sum.splits)

lemma not_expired_plain: "\<not> isExpiredAuthError (plain_error m)"
  by (simp add: isExpiredAuthError_def err_code_of_def err_status_of_def plain_error_def)

lemma attempt_effect:
  "attempt cf w force s = (r, s') \<Longrightarrow>
     (\<exists>new. trace s' = trace s @ new \<and> count_list new Authorize \<le> 1 \<and>
        count_list new GetUploadUrl \<le> 1 \<and> count_list new UploadFile \<le> 1) \<and>
     console s' = console s \<and> reports s' = reports s \<and> disk s' = disk s \<and>
     file_writes s' = file_writes s \<and> b2Config s' = b2Config s \<and>
     b2InitPromise s' = b2InitPromise s"
  apply (simp add: attempt_def split: prod.splits sum.splits option.splits)
  apply (auto simp: remote_call_done_def Let_def dest!: ensureB2Authorized_effect
      split: sum.splits)
  done

lemma attempt_forced:
  "attempt cf w True s = (r, s') \<Longrightarrow> b2KeyId cf \<noteq> [] \<Longrightarrow> b2AppKey cf \<noteq> [] \<Longrightarrow>
     \<exists>rest. trace s' = trace s @ Authorize # rest \<and> Authorize \<notin> set rest \<and>
       count_list rest GetUploadUrl \<le> 1 \<and> count_list rest UploadFile \<le> 1"
  apply (simp add: attempt_def split: prod.splits sum.splits option.splits)
  apply (auto simp: remote_call_done_def Let_def dest!: ensureB2Authorized_forced
      split: sum.splits)
  done

lemma attempt_expired_creds:
  "attempt cf w force s = (Inl e, s') \<Longrightarrow> isExpiredAuthError e \<Longrightarrow>
     b2KeyId cf \<noteq> [] \<and> b2AppKey cf \<noteq> []"
  apply (cases "b2KeyId cf \<noteq> [] \<and> b2AppKey cf \<noteq> []")
   apply simp
  apply (auto simp: attempt_def ensureB2Authorized_def not_expired_plain)
  done

text \<open>
  Claim C1, as amended. \<open>tr1\<close> are the remote calls of the first attempt, \<open>tr2\<close> those
  made after it. The first attempt makes at most one authorize call, one upload-URL
  fetch and one upload. If it succeeds, or fails with an error that carries no
  auth-expiry signal, nothing more is called and its result is the result of
  \<^verbatim>\<open>uploadFileToB2\<close>: the failure propagates. If it fails with the expiry signal
  (whichever of its three calls failed), a warning is logged and exactly one more
  attempt runs, with forced authorization: its first remote call is an authorize call,
  it makes no other authorize call, at most one upload-URL fetch and at most one upload,
  and its result, success or failure, is the result of \<^verbatim>\<open>uploadFileToB2\<close>. In all, a
  request makes at most two authorize calls and at most two uploads.
\<close>

theorem uploadFileToB2_retry_policy:
  assumes first: "attempt cf w False s = (r1, s1)"
    and whole: "uploadFileToB2 cf w s = (r, s')"
  shows "\<exists>tr1 tr2. trace s1 = trace s @ tr1 \<and> trace s' = trace s1 @ tr2 \<and>
           count_list tr1 Authorize \<le> 1 \<and> count_list tr1 GetUploadUrl \<le> 1 \<and>
           count_list tr1 UploadFile \<le> 1 \<and>
           count_list (tr1 @ tr2) Authorize \<le> 2 \<and> count_list (tr1 @ tr2) UploadFile \<le> 2 \<and>
           (case r1 of
              Inr u \<Rightarrow> r = Inr u \<and> tr2 = [] \<and> s' = s1
            | Inl err \<Rightarrow>
                if isExpiredAuthError err
                then (r, s') = attempt cf w True (warn WarnAuthExpired s1) \<and>
                     (\<exists>rest. tr2 = Authorize # rest \<and> Authorize \<notin> set rest \<and>
                         count_list rest GetUploadUrl \<le> 1 \<and> count_list rest UploadFile \<le> 1)
                else r = Inl err \<and> tr2 = [] \<and> s' = s1)"
proof -
  from attempt_effect[OF first] obtain tr1 where
    tr1: "trace s1 = trace s @ tr1" "count_list tr1 Authorize \<le> 1"
      "count_list tr1 GetUploadUrl \<le> 1" "count_list tr1 UploadFile \<le> 1"
    by blast
  show ?thesis
  proof (cases r1)
    case (Inr u)
    with first whole have "r = Inr u" "s' = s1"
      by (simp_all add: uploadFileToB2_def)
    with tr1 Inr show ?thesis by simp
  next
    case (Inl err)
    show ?thesis
    proof (cases "isExpiredAuthError err")
      case False
      with Inl first whole have "r = Inl err" "s' = s1"
        by (simp_all add: uploadFileToB2_def)
      with tr1 Inl False show ?thesis by simp
    next
      case True
      with Inl first whole have retry: "attempt cf w True (warn WarnAuthExpired s1) = (r, s')"
        by (simp add: uploadFileToB2_def)
      from first Inl True have creds: "b2KeyId cf \<noteq> []" "b2AppKey cf \<noteq> []"
        using attempt_expired_creds by blast+
      from attempt_forced[OF retry creds] obtain rest where
        rest: "trace s' = trace (warn WarnAuthExpired s1) @ Authorize # rest"
          "Authorize \<notin> set rest" "count_list rest GetUploadUrl \<le> 1"
          "count_list rest UploadFile \<le> 1"
        by blast
      have "trace s' = trace s1 @ Authorize # rest"
        using rest(1) by (simp add: warn_def)
      moreover have "count_list (tr1 @ Authorize # rest) Authorize \<le> 2"
        using tr1(2) rest(2) by (simp add: count_list_0_iff)
      moreover have "count_list (tr1 @ Authorize # rest) UploadFile \<le> 2"
        using tr1(4) rest(4) by simp
      ultimately show ?thesis
        using tr1 Inl True retry rest by simp
    qed
  qed
qed

text \<open>
  The theorem at a store whose first upload reports an expired token: the request
  succeeds after one forced re-authorization, with two authorize calls and two uploads.
\<close>

theorem uploadFileToB2_retry_policy_witness:
  "fst (uploadFileToB2 demo_settings expiring_world (boot expiring_world FileMissing)) = Inr () \<and>
   trace (snd (uploadFileToB2 demo_settings expiring_world (boot expiring_world FileMissing))) =
     [Authorize, GetUploadUrl, UploadFile, Authorize, GetUploadUrl, UploadFile]"
  using uploadFileToB2_retry_policy [of demo_settings expiring_world
      "boot expiring_world FileMissing"
      "fst (attempt demo_settings expiring_world False (boot expiring_world FileMissing))"
      "snd (attempt demo_settings expiring_world False (boot expiring_world FileMissing))"
      "fst (uploadFileToB2 demo_settings expiring_world (boot expiring_world FileMissing))"
      "snd (uploadFileToB2 demo_settings expiring_world (boot expiring_world FileMissing))"]
  by (simp add: demo_settings_def demo_auth_def expired_error_def good_world_def demo_sha256_def
      expiring_world_def boot_def loadReports_def saveReports_def seed_reports_def
      uploadFileToB2_def attempt_def ensureB2Authorized_def remote_call_done_def warn_def
      isExpiredAuthError_def err_code_of_def err_status_of_def B2_AUTH_TTL_MS_def Let_def)

text \<open>
  Claim C1 as stated has the retry triggered only by a failed upload or a failed
  upload-URL fetch. At a store that rejects the authorize call itself with HTTP 401,
  the request logs the expiry warning and authorizes a second time, although no
  upload-URL fetch and no upload was ever made.
\<close>

theorem retry_after_failed_authorize_counterexample:
  "trace (snd (uploadFileToB2 demo_settings locked_out_world
                 (boot locked_out_world FileMissing))) = [Authorize, Authorize] \<and>
   console (snd (uploadFileToB2 demo_settings locked_out_world
                   (boot locked_out_world FileMissing))) = [WarnAuthExpired] \<and>
   fst (uploadFileToB2 demo_settings locked_out_world
          (boot locked_out_world FileMissing)) = Inl unauthorized_error"
  by (simp add: demo_settings_def demo_auth_def unauthorized_error_def good_world_def demo_sha256_def
      locked_out_world_def boot_def loadReports_def saveReports_def seed_reports_def
      uploadFileToB2_def attempt_def ensureB2Authorized_def remote_call_done_def warn_def
      isExpiredAuthError_def err_code_of_def err_status_of_def B2_AUTH_TTL_MS_def Let_def)

section \<open>Initialisation of the store: once, and never a fault\<close>

lemma discover_bucket_effect:
  "discover_bucket w auth bid bname s = (r, s') \<Longrightarrow>
     console s' = console s \<and> b2Config s' = b2Config s \<and> b2InitPromise s' = b2InitPromise s \<and>
     reports s' = reports s \<and> disk s' = disk s \<and> file_writes s' = file_writes s"
  by (auto simp: discover_bucket_def list_lookup_def get_lookup_def remote_call_done_def
      split: option.splits sum.splits prod.splits if_splits)

lemma ensureB2Ready_cached:
  "b2InitPromise s = Some c \<Longrightarrow> ensureB2Ready cf w s = (Inr c, s)"
  by (simp add: ensureB2Ready_def)

lemma ensureB2Ready_total:
  "ensureB2Ready cf w s = (r, s1) \<Longrightarrow> \<exists>c. r = Inr c \<and> b2InitPromise s1 = Some c"
  by (auto simp: ensureB2Ready_def init_catch_def Let_def
      split: option.splits prod.splits sum.splits)

lemma ensureB2Ready_unconfigured:
  "b2InitPromise s = None \<Longrightarrow> \<not> configured cf \<Longrightarrow> ensureB2Ready cf w s = (r, s1) \<Longrightarrow>
     r = Inr ((b2Config s)\<lparr>enabled := False\<rparr>) \<and> trace s1 = trace s \<and> console s1 = console s"
  by (auto simp: ensureB2Ready_def init_body_def disable_def configured_def)

lemma init_body_auth_fails:
  assumes "configured cf" and "ensureB2Authorized cf w True s = (Inl e, s0)"
  shows "init_body cf w s = (Inl e, s0)"
  using assms by (simp add: init_body_def configured_def)

lemma init_body_discovery_fails:
  assumes "configured cf" and "ensureB2Authorized cf w True s = (Inr auth, s0)"
    and "b2BucketIdEnv cf = [] \<or> b2BucketNameEnv cf = []"
    and "discover_bucket w auth (b2BucketIdEnv cf) (b2BucketNameEnv cf) s0 = (Inl e, s2)"
  shows "init_body cf w s = (Inl e, s2)"
  using assms by (auto simp add: init_body_def configured_def Let_def)

lemma init_body_frame:
  "init_body cf w s = (Inl e, s0) \<Longrightarrow> console s0 = console s \<and> b2Config s0 = b2Config s"
  by (auto simp: init_body_def Let_def split: if_splits prod.splits sum.splits
      dest!: ensureB2Authorized_effect discover_bucket_effect)

lemma ensureB2Ready_init_fails:
  assumes "b2InitPromise s = None" and "init_body cf w s = (Inl e, s0)"
    and "ensureB2Ready cf w s = (r, s1)"
  shows "r = Inr ((b2Config s)\<lparr>enabled := False\<rparr>) \<and> console s1 = console s @ [B2InitError e]"
  using assms init_body_frame[OF assms(2)]
  by (auto simp: ensureB2Ready_def init_catch_def disable_def warn_def Let_def)

text \<open>
  Claim C3. A call of \<^verbatim>\<open>ensureB2Ready\<close> never rejects: it returns a bucket
  configuration \<open>c\<close> and leaves it in \<^verbatim>\<open>b2InitPromise\<close>; from any later state that
  still holds it, a further call returns the same \<open>c\<close> and changes nothing (no remote
  call, no log line), whatever the store would answer. On the first call: if the
  credentials or the bucket setting are absent, \<open>c\<close> is the disabled configuration and
  neither the store nor the console is touched; if they are present and the authorize
  call fails, or bucket discovery fails, the cause is logged and \<open>c\<close> is the disabled
  configuration.
\<close>

theorem ensureB2Ready_idempotent:
  assumes run: "ensureB2Ready cf w s = (r, s1)"
  shows "\<exists>c. r = Inr c \<and> b2InitPromise s1 = Some c \<and>
           (\<forall>w' s2. b2InitPromise s2 = Some c \<longrightarrow> ensureB2Ready cf w' s2 = (Inr c, s2)) \<and>
           (b2InitPromise s = None \<longrightarrow>
              (\<not> configured cf \<longrightarrow>
                 \<not> enabled c \<and> c = (b2Config s)\<lparr>enabled := False\<rparr> \<and>
                 trace s1 = trace s \<and> console s1 = console s) \<and>
              (configured cf \<longrightarrow>
                 (\<forall>e s0. ensureB2Authorized cf w True s = (Inl e, s0) \<longrightarrow>
                    \<not> enabled c \<and> c = (b2Config s)\<lparr>enabled := False\<rparr> \<and>
                    console s1 = console s @ [B2InitError e]) \<and>
                 (\<forall>auth s0 e s2.
                    ensureB2Authorized cf w True s = (Inr auth, s0) \<and>
                    (b2BucketIdEnv cf = [] \<or> b2BucketNameEnv cf = []) \<and>
                    discover_bucket w auth (b2BucketIdEnv cf) (b2BucketNameEnv cf) s0 = (Inl e, s2) \<longrightarrow>
                    \<not> enabled c \<and> c = (b2Config s)\<lparr>enabled := False\<rparr> \<and>
                    console s1 = console s @ [B2InitError e])))"
proof -
  from ensureB2Ready_total[OF run] obtain c where c: "r = Inr c" "b2InitPromise s1 = Some c"
    by blast
  have again: "\<forall>w' s2. b2InitPromise s2 = Some c \<longrightarrow> ensureB2Ready cf w' s2 = (Inr c, s2)"
    by (simp add: ensureB2Ready_cached)
  show ?thesis
  proof (rule exI[of _ c], intro conjI)
    show "r = Inr c" by (fact c(1))
    show "b2InitPromise s1 = Some c" by (fact c(2))
    show "\<forall>w' s2. b2InitPromise s2 = Some c \<longrightarrow> ensureB2Ready cf w' s2 = (Inr c, s2)"
      by (fact again)
    show "b2InitPromise s = None \<longrightarrow>
              (\<not> configured cf \<longrightarrow>
                 \<not> enabled c \<and> c = (b2Config s)\<lparr>enabled := False\<rparr> \<and>
                 trace s1 = trace s \<and> console s1 = console s) \<and>
              (configured cf \<longrightarrow>
                 (\<forall>e s0. ensureB2Authorized cf w True s = (Inl e, s0) \<longrightarrow>
                    \<not> enabled c \<and> c = (b2Config s)\<lparr>enabled := False\<rparr> \<and>
                    console s1 = console s @ [B2InitError e]) \<and>
                 (\<forall>auth s0 e s2.
                    ensureB2Authorized cf w True s = (Inr auth, s0) \<and>
                    (b2BucketIdEnv cf = [] \<or> b2BucketNameEnv cf = []) \<and>
                    discover_bucket w auth (b2BucketIdEnv cf) (b2BucketNameEnv cf) s0 = (Inl e, s2) \<longrightarrow>
                    \<not> enabled c \<and> c = (b2Config s)\<lparr>enabled := False\<rparr> \<and>
                    console s1 = console s @ [B2InitError e]))"
    proof (rule impI, rule conjI)
      assume fresh: "b2InitPromise s = None"
      show "\<not> configured cf \<longrightarrow>
                 \<not> enabled c \<and> c = (b2Config s)\<lparr>enabled := False\<rparr> \<and>
                 trace s1 = trace s \<and> console s1 = console s"
        using ensureB2Ready_unconfigured[OF fresh _ run] c by auto
    next
      assume fresh: "b2InitPromise s = None"
      show "configured cf \<longrightarrow>
                 (\<forall>e s0. ensureB2Authorized cf w True s = (Inl e, s0) \<longrightarrow>
                    \<not> enabled c \<and> c = (b2Config s)\<lparr>enabled := False\<rparr> \<and>
                    console s1 = console s @ [B2InitError e]) \<and>
                 (\<forall>auth s0 e s2.
                    ensureB2Authorized cf w True s = (Inr auth, s0) \<and>
                    (b2BucketIdEnv cf = [] \<or> b2BucketNameEnv cf = []) \<and>
                    discover_bucket w auth (b2BucketIdEnv cf) (b2BucketNameEnv cf) s0 = (Inl e, s2) \<longrightarrow>
                    \<not> enabled c \<and> c = (b2Config s)\<lparr>enabled := False\<rparr> \<and>
                    console s1 = console s @ [B2InitError e])"
      proof (rule impI, rule conjI)
        assume conf: "configured cf"
        show "\<forall>e s0. ensureB2Authorized cf w True s = (Inl e, s0) \<longrightarrow>
                    \<not> enabled c \<and> c = (b2Config s)\<lparr>enabled := False\<rparr> \<and>
                    console s1 = console s @ [B2InitError e]"
        proof (intro allI impI)
          fix e s0
          assume a: "ensureB2Authorized cf w True s = (Inl e, s0)"
          from ensureB2Ready_init_fails[OF fresh init_body_auth_fails[OF conf a] run] c
          show "\<not> enabled c \<and> c = (b2Config s)\<lparr>enabled := False\<rparr> \<and>
            console s1 = console s @ [B2InitError e]"
            by auto
        qed
      next
        assume conf: "configured cf"
        show "\<forall>auth s0 e s2.
                    ensureB2Authorized cf w True s = (Inr auth, s0) \<and>
                    (b2BucketIdEnv cf = [] \<or> b2BucketNameEnv cf = []) \<and>
                    discover_bucket w auth (b2BucketIdEnv cf) (b2BucketNameEnv cf) s0 = (Inl e, s2) \<longrightarrow>
                    \<not> enabled c \<and> c = (b2Config s)\<lparr>enabled := False\<rparr> \<and>
                    console s1 = console s @ [B2InitError e]"
        proof (intro allI impI, elim conjE)
          fix auth s0 e s2
          assume a: "ensureB2Authorized cf w True s = (Inr auth, s0)"
            "b2BucketIdEnv cf = [] \<or> b2BucketNameEnv cf = []"
            "discover_bucket w auth (b2BucketIdEnv cf) (b2BucketNameEnv cf) s0 = (Inl e, s2)"
          from ensureB2Ready_init_fails[OF fresh init_body_discovery_fails[OF conf a] run] c
          show "\<not> enabled c \<and> c = (b2Config s)\<lparr>enabled := False\<rparr> \<and>
            console s1 = console s @ [B2InitError e]"
            by auto
        qed
      qed
    qed
  qed
qed

text \<open>
  The theorem at a store that rejects the authorize call: the first call logs the
  cause and returns the disabled configuration, and a second call, made when the store
  would accept, returns the same configuration without touching the state.
\<close>

theorem ensureB2Ready_idempotent_witness:
  "fst (ensureB2Ready demo_settings locked_out_world (boot locked_out_world FileMissing)) =
     Inr \<lparr>enabled = False, bucketId = [], bucketName = [], publicBaseUrl = []\<rparr> \<and>
   console (snd (ensureB2Ready demo_settings locked_out_world (boot locked_out_world FileMissing))) =
     [B2InitError unauthorized_error] \<and>
   ensureB2Ready demo_settings good_world
       (snd (ensureB2Ready demo_settings locked_out_world (boot locked_out_world FileMissing))) =
     (Inr \<lparr>enabled = False, bucketId = [], bucketName = [], publicBaseUrl = []\<rparr>,
      snd (ensureB2Ready demo_settings locked_out_world (boot locked_out_world FileMissing)))"
  using ensureB2Ready_idempotent [of demo_settings locked_out_world
      "boot locked_out_world FileMissing"
      "fst (ensureB2Ready demo_settings locked_out_world (boot locked_out_world FileMissing))"
      "snd (ensureB2Ready demo_settings locked_out_world (boot locked_out_world FileMissing))"]
  by (simp add: demo_settings_def demo_auth_def unauthorized_error_def good_world_def demo_sha256_def
      locked_out_world_def boot_def loadReports_def saveReports_def seed_reports_def
      ensureB2Ready_def init_body_def init_catch_def disable_def
      ensureB2Authorized_def remote_call_done_def warn_def
      plain_error_def B2_AUTH_TTL_MS_def Let_def)

section \<open>The upload handler\<close>

lemma map_of_put_report: "map_of (put_report reg h r) h = Some r"
  by (induction reg h r rule: put_report.induct) auto

lemma reports_saveReports: "reports (saveReports w d s) = reports s"
  by (simp add: saveReports_def)

lemma store_and_register_status:
  "fst (store_and_register cf w cfg req f s) \<noteq> Failure 400"
  by (simp add: store_and_register_def Let_def split: prod.splits sum.splits)

text \<open>
  Claim C6, as amended. The handler answers 400 exactly when the request carries no
  file part (\<^verbatim>\<open>req.file\<close> is absent), and then it returns before anything else
  happens: the state is unchanged, so the remote store was not contacted and neither
  the registry nor the store file was written.
\<close>

theorem post_upload_no_file:
  "(fst (post_upload cf w req s) = Failure 400 \<longleftrightarrow> req_file req = None) \<and>
   (req_file req = None \<longrightarrow> post_upload cf w req s = (Failure 400, s))"
  by (auto simp: post_upload_def store_and_register_status split: option.splits prod.splits sum.splits)

text \<open>The theorem at a request without a file part.\<close>

theorem post_upload_no_file_witness:
  "post_upload demo_settings good_world no_file_upload (boot good_world FileMissing) =
     (Failure 400, boot good_world FileMissing)"
  using post_upload_no_file [of demo_settings good_world no_file_upload
      "boot good_world FileMissing"]
  by (simp add: no_file_upload_def)

text \<open>
  Claim C6 as stated also has an empty buffer rejected. The handler tests only
  whether \<^verbatim>\<open>req.file\<close> is there: a file part of zero bytes is uploaded to the store
  and registered under the hash of the empty buffer, and the response is a success.
\<close>

theorem empty_buffer_accepted_counterexample:
  "fst (post_upload demo_settings good_world empty_upload (boot good_world FileMissing)) =
     Success \<lparr>ok_hash = ''e3b0c44298fc1c149afbf4c8996fb92427ae41e4649b934ca495991b7852b855'',
              ok_fileName = ''empty.pdf'',
              ok_fileUrl = ''https://f000.example.com/file/reports/empty.pdf'',
              ok_mimeType = ''application/pdf'', ok_size = None\<rparr> \<and>
   trace (snd (post_upload demo_settings good_world empty_upload (boot good_world FileMissing))) =
     [Authorize, GetUploadUrl, UploadFile] \<and>
   map fst (reports (snd (post_upload demo_settings good_world empty_upload
                            (boot good_world FileMissing)))) =
     [''123abc'', ''e3b0c44298fc1c149afbf4c8996fb92427ae41e4649b934ca495991b7852b855'']"
  by (simp add: empty_upload_def demo_settings_def demo_auth_def good_world_def demo_sha256_def
      boot_def loadReports_def saveReports_def seed_reports_def
      post_upload_def store_and_register_def ensureB2Ready_def init_body_def
      uploadFileToB2_def attempt_def ensureB2Authorized_def remote_call_done_def
      B2_AUTH_TTL_MS_def Let_def record_key_def providedHash_def storage_name_def
      originalName_def mime_of_def public_file_url_def safe_path_def strip_trailing_slash_def
      encodeURIComponent_def percent_encode_def is_unreserved_def hex_digit_def)

text \<open>
  Claim C7. When an upload without a \<^verbatim>\<open>hash\<close> field succeeds, the hash of the
  response is the SHA-256 hex digest of the uploaded bytes, and the registry holds,
  under that very key, the record of this upload (the file name, URL and MIME type of
  the response).
\<close>

theorem stored_key_is_content_hash:
  assumes succ: "post_upload cf w req s = (Success ok, s')"
    and no_hash: "body_hash req = None"
  shows "\<exists>f stamp. req_file req = Some f \<and> ok_hash ok = sha256_hex w (buffer f) \<and>
           get_report (reports s') (sha256_hex w (buffer f)) =
             Some \<lparr>fileName = Some (ok_fileName ok), status = Some original_status,
                   fileUrl = Some (ok_fileUrl ok), mimeType = Some (ok_mimeType ok),
                   createdAt = Some stamp\<rparr>"
  using assms
  by (auto simp: post_upload_def store_and_register_def Let_def reports_saveReports
      record_key_def providedHash_def get_report_def map_of_put_report
      split: option.splits prod.splits sum.splits if_splits)

text \<open>The theorem at the upload of a small PDF that names no hash.\<close>

theorem stored_key_is_content_hash_witness:
  "fst (post_upload demo_settings good_world pdf_upload (boot good_world FileMissing)) =
     Success \<lparr>ok_hash = ''ca7554f0db6ddfa48b2149feffc0dcbf5ed01b110297d7cd8d919185fa842098'',
              ok_fileName = ''a/b c.pdf'',
              ok_fileUrl = ''https://f000.example.com/file/reports/a/b%20c.pdf'',
              ok_mimeType = ''application/pdf'', ok_size = Some 9\<rparr> \<and>
   get_report (reports (snd (post_upload demo_settings good_world pdf_upload
                               (boot good_world FileMissing))))
       ''ca7554f0db6ddfa48b2149feffc0dcbf5ed01b110297d7cd8d919185fa842098'' =
     Some \<lparr>fileName = Some ''a/b c.pdf'', status = Some original_status,
           fileUrl = Some ''https://f000.example.com/file/reports/a/b%20c.pdf'',
           mimeType = Some ''application/pdf'',
           createdAt = Some ''2023-11-14T22:13:20.000Z''\<rparr>"
  using stored_key_is_content_hash [of demo_settings good_world pdf_upload
      "boot good_world FileMissing"
      "\<lparr>ok_hash = ''ca7554f0db6ddfa48b2149feffc0dcbf5ed01b110297d7cd8d919185fa842098'',
              ok_fileName = ''a/b c.pdf'',
              ok_fileUrl = ''https://f000.example.com/file/reports/a/b%20c.pdf'',
              ok_mimeType = ''application/pdf'', ok_size = Some 9\<rparr>"
      "snd (post_upload demo_settings good_world pdf_upload (boot good_world FileMissing))"]
  by (simp add: pdf_upload_def demo_settings_def demo_auth_def good_world_def demo_sha256_def
      boot_def loadReports_def saveReports_def seed_reports_def get_report_def
      post_upload_def store_and_register_def ensureB2Ready_def init_body_def
      uploadFileToB2_def attempt_def ensureB2Authorized_def remote_call_done_def
      B2_AUTH_TTL_MS_def Let_def record_key_def providedHash_def storage_name_def
      originalName_def mime_of_def public_file_url_def safe_path_def strip_trailing_slash_def
      encodeURIComponent_def percent_encode_def is_unreserved_def hex_digit_def)

subsection \<open>The public URL\<close>

lemma split_slash_nonempty: "split_slash s \<noteq> []"
  by (induction s) (auto split: list.splits)

lemma split_slash_append:
  "CHR ''/'' \<notin> set a \<Longrightarrow> split_slash (a @ b) = (a @ hd (split_slash b)) # tl (split_slash b)"
proof (induction a)
  case Nil
  then show ?case using split_slash_nonempty[of b] by (cases "split_slash b") auto
next
  case (Cons c a)
  then show ?case by (auto split: list.splits)
qed

lemma split_slash_plain: "CHR ''/'' \<notin> set a \<Longrightarrow> split_slash a = [a]"
  using split_slash_append[of a "[]"] by simp

lemma split_join_slash:
  "segs \<noteq> [] \<Longrightarrow> \<forall>seg \<in> set segs. CHR ''/'' \<notin> set seg \<Longrightarrow> split_slash (join_slash segs) = segs"
proof (induction segs rule: join_slash.induct)
  case 1
  then show ?case by simp
next
  case (2 seg)
  then show ?case by (simp add: split_slash_plain)
next
  case (3 seg v va)
  then show ?case by (simp add: split_slash_append)
qed

lemma hex_digit_in: "hex_digit n \<in> set ''0123456789ABCDEF''"
  unfolding hex_digit_def by (rule nth_mem) simp

lemma hex_digit_not_slash: "hex_digit n \<noteq> CHR ''/''"
  using hex_digit_in[of n] by auto

lemma slash_reserved: "\<not> is_unreserved (CHR ''/'')"
  by (simp add: is_unreserved_def)

lemma percent_encode_no_slash: "CHR ''/'' \<notin> set (percent_encode c)"
  using hex_digit_not_slash[of "of_char c div 16"] hex_digit_not_slash[of "of_char c mod 16"]
  by (auto simp: percent_encode_def)

lemma encode_char_no_slash:
  "CHR ''/'' \<notin> set (if is_unreserved c then [c] else percent_encode c)"
  using slash_reserved percent_encode_no_slash[of c] by (cases "is_unreserved c") auto

lemma encodeURIComponent_no_slash: "CHR ''/'' \<notin> set (encodeURIComponent s)"
  unfolding encodeURIComponent_def using encode_char_no_slash by (induction s) simp_all

lemma split_safe_path: "split_slash (safe_path n) = map encodeURIComponent (split_slash n)"
  unfolding safe_path_def
  by (rule split_join_slash) (simp_all add: split_slash_nonempty encodeURIComponent_no_slash)

lemma safe_path_example: "safe_path ''a/b c.pdf'' = ''a/b%20c.pdf''"
  by (simp add: safe_path_def encodeURIComponent_def percent_encode_def is_unreserved_def
      hex_digit_def)

text \<open>
  Claim C8. In every successful response the file URL is the public base URL of the
  bucket configuration that \<^verbatim>\<open>ensureB2Ready\<close> returned (without its final slash, if
  it has one), then \<^verbatim>\<open>/file/\<close>, the percent-encoded bucket name, a slash, and the
  storage name split at its slashes with every segment percent-encoded and the
  segments joined by slashes again. Encoding adds no slash, so splitting the path of
  the URL at its slashes gives back the encoded segments, one for one. The storage name
  \<^verbatim>\<open>a/b c.pdf\<close> gives the path \<^verbatim>\<open>a/b%20c.pdf\<close>.
\<close>

theorem public_url_shape:
  assumes "post_upload cf w req s = (Success ok, s')"
  shows "\<exists>cfg. fst (ensureB2Ready cf w s) = Inr cfg \<and>
           ok_fileUrl ok =
             strip_trailing_slash (publicBaseUrl cfg) @ ''/file/'' @
             encodeURIComponent (bucketName cfg) @ ''/'' @
             join_slash (map encodeURIComponent (split_slash (ok_fileName ok))) \<and>
           split_slash (join_slash (map encodeURIComponent (split_slash (ok_fileName ok)))) =
             map encodeURIComponent (split_slash (ok_fileName ok)) \<and>
           join_slash (map encodeURIComponent (split_slash ''a/b c.pdf'')) = ''a/b%20c.pdf''"
  using assms split_safe_path safe_path_example
  by (auto simp: post_upload_def store_and_register_def Let_def public_file_url_def
      safe_path_def split: option.splits prod.splits sum.splits if_splits)

text \<open>The theorem at an upload whose target name is \<^verbatim>\<open>a/b c.pdf\<close>.\<close>

theorem public_url_shape_witness:
  "fst (ensureB2Ready demo_settings good_world (boot good_world FileMissing)) =
     Inr \<lparr>enabled = True, bucketId = ''bucket-1'', bucketName = ''reports'',
          publicBaseUrl = ''https://f000.example.com/''\<rparr> \<and>
   fst (post_upload demo_settings good_world pdf_upload (boot good_world FileMissing)) =
     Success \<lparr>ok_hash = ''ca7554f0db6ddfa48b2149feffc0dcbf5ed01b110297d7cd8d919185fa842098'',
              ok_fileName = ''a/b c.pdf'',
              ok_fileUrl = ''https://f000.example.com/file/reports/a/b%20c.pdf'',
              ok_mimeType = ''application/pdf'', ok_size = Some 9\<rparr>"
  using public_url_shape [of demo_settings good_world pdf_upload
      "boot good_world FileMissing"
      "\<lparr>ok_hash = ''ca7554f0db6ddfa48b2149feffc0dcbf5ed01b110297d7cd8d919185fa842098'',
              ok_fileName = ''a/b c.pdf'',
              ok_fileUrl = ''https://f000.example.com/file/reports/a/b%20c.pdf'',
              ok_mimeType = ''application/pdf'', ok_size = Some 9\<rparr>"
      "snd (post_upload demo_settings good_world pdf_upload (boot good_world FileMissing))"]
  by (simp add: pdf_upload_def demo_settings_def demo_auth_def good_world_def demo_sha256_def
      boot_def loadReports_def saveReports_def seed_reports_def
      post_upload_def store_and_register_def ensureB2Ready_def init_body_def
      uploadFileToB2_def attempt_def ensureB2Authorized_def remote_call_done_def
      B2_AUTH_TTL_MS_def Let_def record_key_def providedHash_def storage_name_def
      originalName_def mime_of_def public_file_url_def safe_path_def strip_trailing_slash_def
      encodeURIComponent_def percent_encode_def is_unreserved_def hex_digit_def)

subsection \<open>Empty form fields\<close>

lemma record_key_empty_hash:
  "record_key w (req\<lparr>body_hash := Some []\<rparr>) f = sha256_hex w (buffer f)"
  "record_key w (req\<lparr>body_hash := None\<rparr>) f = sha256_hex w (buffer f)"
  "record_key w (req\<lparr>body_targetName := t\<rparr>) f = record_key w req f"
  by (simp_all add: record_key_def providedHash_def)

lemma storage_name_empty_name:
  "storage_name (req\<lparr>body_targetName := Some []\<rparr>) f = originalName f"
  "storage_name (req\<lparr>body_targetName := None\<rparr>) f = originalName f"
  "storage_name (req\<lparr>body_hash := h\<rparr>) f = storage_name req f"
  by (simp_all add: storage_name_def)

lemma store_and_register_empty_hash:
  "store_and_register cf w cfg (req\<lparr>body_hash := Some []\<rparr>) f s =
   store_and_register cf w cfg (req\<lparr>body_hash := None\<rparr>) f s"
  unfolding store_and_register_def record_key_empty_hash storage_name_empty_name
  by (rule refl)

lemma store_and_register_empty_name:
  "store_and_register cf w cfg (req\<lparr>body_targetName := Some []\<rparr>) f s =
   store_and_register cf w cfg (req\<lparr>body_targetName := None\<rparr>) f s"
  unfolding store_and_register_def record_key_empty_hash storage_name_empty_name
  by (rule refl)

text \<open>
  Claim C10. A request whose \<^verbatim>\<open>hash\<close> field is the empty string is handled exactly
  as the same request without the field, and likewise for \<^verbatim>\<open>targetName\<close>: response
  and resulting state are equal. With an empty \<^verbatim>\<open>hash\<close> the record key is the
  SHA-256 hex digest of the buffer; with an empty \<^verbatim>\<open>targetName\<close> the storage name is
  the original file name, or \<^verbatim>\<open>file\<close> when that is empty too.
\<close>

theorem empty_field_is_absent:
  "post_upload cf w (req\<lparr>body_hash := Some []\<rparr>) s =
     post_upload cf w (req\<lparr>body_hash := None\<rparr>) s \<and>
   post_upload cf w (req\<lparr>body_targetName := Some []\<rparr>) s =
     post_upload cf w (req\<lparr>body_targetName := None\<rparr>) s \<and>
   record_key w (req\<lparr>body_hash := Some []\<rparr>) f = sha256_hex w (buffer f) \<and>
   storage_name (req\<lparr>body_targetName := Some []\<rparr>) f =
     (if originalname f = [] then ''file'' else originalname f)"
  unfolding post_upload_def store_and_register_empty_hash store_and_register_empty_name
  by (simp add: record_key_def providedHash_def storage_name_def originalName_def)

text \<open>The theorem at the upload of a small PDF with both fields empty.\<close>

theorem empty_field_is_absent_witness:
  "fst (post_upload demo_settings good_world
          (pdf_upload\<lparr>body_targetName := Some [], body_hash := Some []\<rparr>)
          (boot good_world FileMissing)) =
     Success \<lparr>ok_hash = ''ca7554f0db6ddfa48b2149feffc0dcbf5ed01b110297d7cd8d919185fa842098'',
              ok_fileName = ''report.pdf'',
              ok_fileUrl = ''https://f000.example.com/file/reports/report.pdf'',
              ok_mimeType = ''application/pdf'', ok_size = Some 9\<rparr>"
  using empty_field_is_absent [of demo_settings good_world
      "pdf_upload\<lparr>body_targetName := Some []\<rparr>" "boot good_world FileMissing"
      "\<lparr>buffer = ''PDF-BYTES'', originalname = ''report.pdf'',
        mimetype = ''application/pdf'', fsize = 9\<rparr>"]
  by (simp add: pdf_upload_def demo_settings_def demo_auth_def good_world_def demo_sha256_def
      boot_def loadReports_def saveReports_def seed_reports_def
      post_upload_def store_and_register_def ensureB2Ready_def init_body_def
      uploadFileToB2_def attempt_def ensureB2Authorized_def remote_call_done_def
      B2_AUTH_TTL_MS_def Let_def record_key_def providedHash_def storage_name_def
      originalName_def mime_of_def public_file_url_def safe_path_def strip_trailing_slash_def
      encodeURIComponent_def percent_encode_def is_unreserved_def hex_digit_def)

section \<open>Loading the registry\<close>



section \<open>Looking a file up\<close>

text \<open>
  Claim C9. \<^verbatim>\<open>GET /file\<close> answers 400 when the \<^verbatim>\<open>hash\<close> parameter is missing (an
  empty value counts as missing: the test is \<^verbatim>\<open>!hash\<close>); 404 when the registry has no
  record for the fingerprint, or the record has no \<^verbatim>\<open>fileUrl\<close> (or an empty one);
  and otherwise redirects with status 302 to the stored URL. For the seed key
  \<^verbatim>\<open>123abc\<close> of a freshly started process the answer is 404.
\<close>

theorem get_file_responses:
  "get_file reg None = Plain 400 \<and>
   get_file reg (Some []) = Plain 400 \<and>
   (h \<noteq> [] \<longrightarrow> get_report reg h = None \<longrightarrow> get_file reg (Some h) = Plain 404) \<and>
   (h \<noteq> [] \<longrightarrow> get_report reg h = Some r \<longrightarrow> fileUrl r = None \<or> fileUrl r = Some [] \<longrightarrow>
      get_file reg (Some h) = Plain 404) \<and>
   (h \<noteq> [] \<longrightarrow> get_report reg h = Some r \<longrightarrow> fileUrl r = Some u \<longrightarrow> u \<noteq> [] \<longrightarrow>
      get_file reg (Some h) = Redirect 302 u) \<and>
   get_file (reports (boot w FileMissing)) (Some ''123abc'') = Plain 404"
  by (auto simp: get_file_def get_report_def boot_def reports_saveReports loadReports_def
      seed_reports_def)

text \<open>
  The theorem at the registry of a fresh process (an unknown key, the seed key) and at
  the registry after one upload (the key of that upload).
\<close>

theorem get_file_responses_witness:
  "get_file (reports (boot good_world FileMissing)) (Some ''unknown'') = Plain 404 \<and>
   get_file (reports (boot good_world FileMissing)) (Some ''123abc'') = Plain 404 \<and>
   get_file (reports (snd (post_upload demo_settings good_world pdf_upload
                             (boot good_world FileMissing))))
       (Some ''ca7554f0db6ddfa48b2149feffc0dcbf5ed01b110297d7cd8d919185fa842098'') =
     Redirect 302 ''https://f000.example.com/file/reports/a/b%20c.pdf''"
  using get_file_responses [of
      "reports (snd (post_upload demo_settings good_world pdf_upload
                       (boot good_world FileMissing)))"
      "''ca7554f0db6ddfa48b2149feffc0dcbf5ed01b110297d7cd8d919185fa842098''"
      "\<lparr>fileName = Some ''a/b c.pdf'', status = Some original_status,
           fileUrl = Some ''https://f000.example.com/file/reports/a/b%20c.pdf'',
           mimeType = Some ''application/pdf'',
           createdAt = Some ''2023-11-14T22:13:20.000Z''\<rparr>"
      "''https://f000.example.com/file/reports/a/b%20c.pdf''" good_world]
  by (simp add: pdf_upload_def demo_settings_def demo_auth_def good_world_def demo_sha256_def
      boot_def loadReports_def saveReports_def seed_reports_def get_report_def get_file_def
      post_upload_def store_and_register_def ensureB2Ready_def init_body_def
      uploadFileToB2_def attempt_def ensureB2Authorized_def remote_call_done_def
      B2_AUTH_TTL_MS_def Let_def record_key_def providedHash_def storage_name_def
      originalName_def mime_of_def public_file_url_def safe_path_def strip_trailing_slash_def
      encodeURIComponent_def percent_encode_def is_unreserved_def hex_digit_def)

section \<open>Listing the registry\<close>

lemma goes_after_dated:
  "time_of g a = Some ta \<Longrightarrow> time_of g b = Some tb \<Longrightarrow> goes_after g a b \<longleftrightarrow> ta < tb"
  by (simp add: goes_after_def compare_rows_def)

lemma set_insert_row: "set (insert_row g a bs) = insert a (set bs)"
  by (induction bs) auto

lemma length_insert_row: "length (insert_row g a bs) = Suc (length bs)"
  by (induction bs) auto

lemma sorted_insert_row:
  assumes "time_of g a \<noteq> None" and "\<forall>r \<in> set bs. time_of g r \<noteq> None"
    and "sorted_wrt (\<lambda>x y. the (time_of g y) \<le> the (time_of g x)) bs"
  shows "sorted_wrt (\<lambda>x y. the (time_of g y) \<le> the (time_of g x)) (insert_row g a bs)"
  using assms
proof (induction bs)
  case Nil
  then show ?case by simp
next
  case (Cons b bs)
  from Cons.prems obtain ta tb where t: "time_of g a = Some ta" "time_of g b = Some tb"
    by auto
  show ?case
  proof (cases "goes_after g a b")
    case True
    then have "ta < tb" using goes_after_dated[OF t] by simp
    with Cons t True show ?thesis by (auto simp: set_insert_row)
  next
    case False
    then have "tb \<le> ta" using goes_after_dated[OF t] by simp
    with Cons t False show ?thesis by auto
  qed
qed

text \<open>
  When every record's \<^verbatim>\<open>createdAt\<close> is missing (time 0) or parses as a date, the
  listing holds the rows of all records, newest first.
\<close>

lemma api_reports_dated_descending:
  assumes "\<forall>r \<in> set (map to_row reg). time_of g r \<noteq> None"
  shows "sorted_wrt (\<lambda>x y. the (time_of g y) \<le> the (time_of g x)) (api_reports g reg) \<and>
         set (api_reports g reg) = set (map to_row reg) \<and>
         length (api_reports g reg) = length reg"
proof -
  have "\<forall>r \<in> set rows. time_of g r \<noteq> None \<Longrightarrow>
        sorted_wrt (\<lambda>x y. the (time_of g y) \<le> the (time_of g x)) (sort_rows g rows) \<and>
        set (sort_rows g rows) = set rows \<and> length (sort_rows g rows) = length rows" for rows
  proof (induction rows)
    case Nil
    then show ?case by (simp add: sort_rows_def)
  next
    case (Cons a rows)
    then have ih: "sorted_wrt (\<lambda>x y. the (time_of g y) \<le> the (time_of g x)) (sort_rows g rows)"
      "set (sort_rows g rows) = set rows" "length (sort_rows g rows) = length rows"
      by auto
    have step: "sort_rows g (a # rows) = insert_row g a (sort_rows g rows)"
      by (simp add: sort_rows_def)
    have "sorted_wrt (\<lambda>x y. the (time_of g y) \<le> the (time_of g x)) (insert_row g a (sort_rows g rows))"
      using sorted_insert_row[of g a "sort_rows g rows"] Cons.prems ih by auto
    then show ?case
      using ih step by (simp add: set_insert_row length_insert_row)
  qed
  from this[of "map to_row reg"] assms show ?thesis
    by (simp add: api_reports_def)
qed

text \<open>
  Claim C5 fails on the code. A record whose \<^verbatim>\<open>createdAt\<close> does not parse has the time
  NaN, every comparison with it yields NaN, which the sort takes for "equal", and the
  record stays where it stood: here first, before a dated record, not last.
\<close>

theorem api_reports_unparseable_first:
  "map row_hash (api_reports demo_getTime mixed_registry) = [''bad'', ''good'']"
  by (simp add: api_reports_def sort_rows_def mixed_registry_def demo_getTime_def to_row_def
      or_empty_def goes_after_def compare_rows_def time_of_def)

section \<open>The authorize guard under interleaving\<close>

lemma guard_inv_init: "guard_inv cf loop_init"
  by (simp add: guard_inv_def loop_init_def)

lemma call_authorized_inv: "guard_inv cf s \<Longrightarrow> guard_inv cf (call_authorized cf force now s)"
  unfolding guard_inv_def call_authorized_def hand_def
  by (cases "authPromise s") (auto split: option.splits)

lemma call_ready_inv: "guard_inv cf s \<Longrightarrow> guard_inv cf (call_ready cf now s)"
proof -
  assume a: "guard_inv cf s"
  have b: "guard_inv cf (s\<lparr>initStarted := True\<rparr>)"
    using a unfolding guard_inv_def by (auto split: if_splits)
  show ?thesis
    using a b call_authorized_inv[OF b] by (simp add: call_ready_def)
qed

lemma handshake_settles_inv:
  "guard_inv cf s \<Longrightarrow> handshake_settles res now s = Some s' \<Longrightarrow> guard_inv cf s'"
  unfolding guard_inv_def handshake_settles_def Let_def
  by (cases res) (fastforce split: if_splits)+

lemma creator_resumes_inv:
  "guard_inv cf s \<Longrightarrow> creator_resumes s = Some s' \<Longrightarrow> guard_inv cf s'"
  unfolding guard_inv_def creator_resumes_def
  by (fastforce split: if_splits)

lemma step_inv: "guard_inv cf s \<Longrightarrow> step cf e s = Some s' \<Longrightarrow> guard_inv cf s'"
  by (cases e) (auto simp: call_authorized_inv call_ready_inv
      dest: handshake_settles_inv creator_resumes_inv)

lemma run_inv: "guard_inv cf s \<Longrightarrow> run cf es s = Some s' \<Longrightarrow> guard_inv cf s'"
proof (induction es arbitrary: s)
  case Nil
  then show ?case by simp
next
  case (Cons e es)
  then show ?case by (auto split: option.splits dest: step_inv)
qed

lemma no_second_handshake:
  assumes "guard_inv cf s" and "authPromise s \<noteq> Null"
  shows "handshakes (call_authorized cf force now s) = handshakes s \<and>
         outstanding (call_authorized cf force now s) = outstanding s \<and>
         authPromise (call_authorized cf force now s) = authPromise s \<and>
         (last (handed (call_authorized cf force now s)) = Joined (handshakes s) \<or>
          (\<not> force \<and> (\<exists>c. lastAuthResponse s = Some c \<and>
             last (handed (call_authorized cf force now s)) = Fulfilled c)))"
  using assms
  by (auto simp: guard_inv_def call_authorized_def hand_def split: option.splits if_splits)

lemma slot_cleared:
  assumes "guard_inv cf s" and "handshake_settles res now s = Some s1"
  shows "outstanding s1 = 0 \<and> settled s1 = settled s @ [(handshakes s, res)] \<and>
         (\<exists>s2. creator_resumes s1 = Some s2 \<and> authPromise s2 = Null \<and>
            (\<forall>t. handshakes (call_authorized cf True t s2) = Suc (handshakes s) \<and>
                 authPromise (call_authorized cf True t s2) = Pending \<and>
                 last (handed (call_authorized cf True t s2)) = Joined (Suc (handshakes s))))"
  using assms
  by (auto simp: guard_inv_def handshake_settles_def creator_resumes_def call_authorized_def
      hand_def Let_def split: if_splits sum.splits)

lemma ready_inv_init: "ready_inv loop_init"
  by (simp add: ready_inv_def loop_init_def)

lemma ready_step:
  assumes "configured cf" and "ready_inv s" and "\<not> is_direct_call e" and "step cf e s = Some s'"
  shows "ready_inv s' \<and> (initStarted s \<or> is_ready_call e \<longrightarrow> initStarted s')"
  using assms
  by (cases e)
     (auto simp: ready_inv_def configured_def call_ready_def call_authorized_def hand_def
        handshake_settles_def creator_resumes_def Let_def split: if_splits sum.splits)

lemma ready_run:
  assumes "configured cf"
  shows "ready_inv s \<Longrightarrow> \<forall>e \<in> set es. \<not> is_direct_call e \<Longrightarrow> run cf es s = Some s' \<Longrightarrow>
         ready_inv s' \<and> (initStarted s \<or> (\<exists>e \<in> set es. is_ready_call e) \<longrightarrow> initStarted s')"
proof (induction es arbitrary: s)
  case Nil
  then show ?case by simp
next
  case (Cons e es)
  from Cons.prems(3) obtain s1 where s1: "step cf e s = Some s1" "run cf es s1 = Some s'"
    by (auto split: option.splits)
  from ready_step[OF assms Cons.prems(1) _ s1(1)] Cons.prems(2)
  have a: "ready_inv s1" "initStarted s \<or> is_ready_call e \<longrightarrow> initStarted s1"
    by auto
  from Cons.IH[OF a(1) _ s1(2)] Cons.prems(2)
  have "ready_inv s'" "initStarted s1 \<or> (\<exists>e \<in> set es. is_ready_call e) \<longrightarrow> initStarted s'"
    by auto
  with a show ?case by auto
qed

lemma one_handshake_for_ready:
  assumes "configured cf" and "run cf es loop_init = Some s"
    and "\<forall>e \<in> set es. \<not> is_direct_call e" and "\<exists>e \<in> set es. is_ready_call e"
  shows "handshakes s = 1"
  using ready_run[OF assms(1) ready_inv_init assms(3) assms(2)] assms(4)
  by (auto simp: ready_inv_def split: if_splits)

text \<open>
  Claim C2, as amended. In every state \<open>s\<close> that a schedule of events reaches from the
  start of the process:
  \<^item> at most one authorize handshake is under way, and one is under way exactly while
    the promise in \<^verbatim>\<open>b2AuthPromise\<close> is pending;
  \<^item> every handshake settles with one result (the settled handshakes are numbered
    apart), which is what every caller joined to that handshake receives;
  \<^item> while the slot holds a promise, a further call starts no handshake and leaves the
    slot alone; it is joined to the handshake in the slot, unless it is an unforced
    call served from the cached session;
  \<^item> when the handshake settles, with success or failure, none is under way, the
    caller that installed the promise can resume and clears the slot, and the next
    forced call starts a fresh handshake;
  \<^item> if credentials and bucket setting are present and the schedule consists of calls
    of \<^verbatim>\<open>ensureB2Ready\<close>, at least one, and of the completions they lead to, exactly
    one handshake was started.
\<close>

theorem single_flight_authorize:
  assumes reach: "run cf es loop_init = Some s"
  shows "outstanding s \<le> 1 \<and> (outstanding s = 1 \<longleftrightarrow> authPromise s = Pending) \<and>
         distinct (map fst (settled s)) \<and>
         (authPromise s \<noteq> Null \<longrightarrow>
            (\<forall>force now.
               handshakes (call_authorized cf force now s) = handshakes s \<and>
               outstanding (call_authorized cf force now s) = outstanding s \<and>
               authPromise (call_authorized cf force now s) = authPromise s \<and>
               (last (handed (call_authorized cf force now s)) = Joined (handshakes s) \<or>
                (\<not> force \<and> (\<exists>c. lastAuthResponse s = Some c \<and>
                   last (handed (call_authorized cf force now s)) = Fulfilled c))))) \<and>
         (\<forall>res now s1. handshake_settles res now s = Some s1 \<longrightarrow>
            outstanding s1 = 0 \<and> settled s1 = settled s @ [(handshakes s, res)] \<and>
            (\<exists>s2. creator_resumes s1 = Some s2 \<and> authPromise s2 = Null \<and>
               (\<forall>t. handshakes (call_authorized cf True t s2) = Suc (handshakes s) \<and>
                    authPromise (call_authorized cf True t s2) = Pending \<and>
                    last (handed (call_authorized cf True t s2)) = Joined (Suc (handshakes s))))) \<and>
         (configured cf \<and> (\<forall>e \<in> set es. \<not> is_direct_call e) \<and> (\<exists>e \<in> set es. is_ready_call e) \<longrightarrow>
            handshakes s = 1)"
proof -
  have inv: "guard_inv cf s"
    using run_inv[OF guard_inv_init reach] .
  have one: "outstanding s \<le> 1 \<and> (outstanding s = 1 \<longleftrightarrow> authPromise s = Pending)"
    using inv by (simp add: guard_inv_def)
  have once: "distinct (map fst (settled s))"
    using inv by (simp add: guard_inv_def)
  have join: "authPromise s \<noteq> Null \<longrightarrow>
            (\<forall>force now.
               handshakes (call_authorized cf force now s) = handshakes s \<and>
               outstanding (call_authorized cf force now s) = outstanding s \<and>
               authPromise (call_authorized cf force now s) = authPromise s \<and>
               (last (handed (call_authorized cf force now s)) = Joined (handshakes s) \<or>
                (\<not> force \<and> (\<exists>c. lastAuthResponse s = Some c \<and>
                   last (handed (call_authorized cf force now s)) = Fulfilled c))))"
    using no_second_handshake[OF inv] by blast
  have clear: "\<forall>res now s1. handshake_settles res now s = Some s1 \<longrightarrow>
            outstanding s1 = 0 \<and> settled s1 = settled s @ [(handshakes s, res)] \<and>
            (\<exists>s2. creator_resumes s1 = Some s2 \<and> authPromise s2 = Null \<and>
               (\<forall>t. handshakes (call_authorized cf True t s2) = Suc (handshakes s) \<and>
                    authPromise (call_authorized cf True t s2) = Pending \<and>
                    last (handed (call_authorized cf True t s2)) = Joined (Suc (handshakes s))))"
    using slot_cleared[OF inv] by blast
  have ready: "configured cf \<and> (\<forall>e \<in> set es. \<not> is_direct_call e) \<and>
      (\<exists>e \<in> set es. is_ready_call e) \<longrightarrow> handshakes s = 1"
    using one_handshake_for_ready[OF _ reach] by blast
  show ?thesis
    using one once join clear ready by (intro conjI) (assumption | simp)+
qed

text \<open>
  The theorem after three calls of \<^verbatim>\<open>ensureB2Ready\<close>: one handshake is under way; a
  forced call made then is joined to it; after it settles and its creator resumes, the
  slot is empty and still only one handshake was started.
\<close>

theorem single_flight_authorize_witness:
  "map_option (\<lambda>s. (handshakes s, outstanding s, authPromise s, handed s))
     (run demo_settings three_ready_calls loop_init) = Some (1, 1, Pending, [Joined 1]) \<and>
   map_option (\<lambda>s. (handshakes s, outstanding s, authPromise s, handed s))
     (run demo_settings (three_ready_calls @ [CallAuthorized True 1500]) loop_init) =
     Some (1, 1, Pending, [Joined 1, Joined 1]) \<and>
   map_option (\<lambda>s. (handshakes s, outstanding s, authPromise s, settled s))
     (run demo_settings
        (three_ready_calls @ [HandshakeSettles (Inr demo_auth) 2000, CreatorResumes]) loop_init) =
     Some (1, 0, Null, [(1, Inr demo_auth)])"
  using single_flight_authorize [of demo_settings three_ready_calls
      "the (run demo_settings three_ready_calls loop_init)"]
  by (simp add: three_ready_calls_def demo_settings_def loop_init_def call_ready_def
      call_authorized_def hand_def handshake_settles_def creator_resumes_def Let_def)

text \<open>
  Claim C2 as stated has every caller that arrives while a handshake is in flight
  await the result of that handshake. Here the second handshake (a forced
  re-authorization) is in flight when an unforced call arrives within the lifetime of
  the cached session: it is handed the cached response of the first handshake at once
  and is not joined to the second.
\<close>

theorem cached_caller_not_joined_counterexample:
  "map_option (\<lambda>s. (handshakes s, authPromise s, handed s))
     (run demo_settings reauthorize_with_fresh_cache loop_init) =
     Some (2, Pending, [Joined 1, Joined 2, Fulfilled demo_auth])"
  by (simp add: reauthorize_with_fresh_cache_def demo_settings_def loop_init_def
      call_authorized_def hand_def handshake_settles_def creator_resumes_def Let_def
      B2_AUTH_TTL_MS_def)

end
